theory Spec2Isabelle
  imports Complex_Main
begin

section \<open>JavaScript numbers\<close>

text \<open>
  The engine in \<^verbatim>\<open>src/GoalsView.svelte\<close> computes with JavaScript numbers, the binary64
  numbers of IEEE 754. A number is modelled as a real, or one of the three special values:
  the two infinities and \<open>NaN\<close>. The finite result of an addition, a multiplication or a
  division is rounded as binary64 rounds it: to the nearest real with 53 significant bits,
  a tie going to the one whose last bit is even. The range of the exponent is not bounded:
  overflow to an infinity and gradual underflow, which need magnitudes above \<open>1.7e308\<close>
  or below \<open>2.3e-308\<close>, do not occur with balances and timestamps and are not modelled.
  Zero carries no sign: a zero divisor is \<open>+0\<close>, which is what the only division of the
  engine that can meet a zero divisor gets (the difference of two equal timestamps).
  \<open>Fin x\<close> stands for a JavaScript number when \<open>x\<close> is a binary64 number; the integers
  below \<open>2 ^ 53\<close> are, and so is every result of the arithmetic.
\<close>

datatype number = Fin real | PInf | NInf | NaN

text \<open>
  Rounding to an integer, ties to even; then \<open>round64\<close>: a positive real is doubled or
  halved until it lies between \<open>2 ^ 52\<close> and \<open>2 ^ 53\<close>, where the binary64 numbers are the
  integers, rounded there, and scaled back.
\<close>

definition roundHalfEven :: "real \<Rightarrow> int" where
  "roundHalfEven x =
     (let f = \<lfloor>x\<rfloor>; r = x - of_int f
      in if r < 1 / 2 then f else if 1 / 2 < r then f + 1 else if even f then f else f + 1)"

function scaleDown :: "real \<Rightarrow> real" where
  "scaleDown x = (if 2 ^ 53 \<le> x then 2 * scaleDown (x / 2) else of_int (roundHalfEven x))"
  by pat_completeness auto
termination
proof (relation "measure (\<lambda>x. nat \<lfloor>x\<rfloor>)")
  show "wf (measure (\<lambda>x. nat \<lfloor>x\<rfloor>))" by simp
next
  fix x :: real
  assume "2 ^ 53 \<le> x"
  then have "2 \<le> x" by simp
  then have "\<lfloor>x / 2\<rfloor> < \<lfloor>x\<rfloor>" by linarith
  moreover from \<open>2 \<le> x\<close> have "0 < \<lfloor>x\<rfloor>" by linarith
  ultimately show "(x / 2, x) \<in> measure (\<lambda>x. nat \<lfloor>x\<rfloor>)" by simp
qed

function scaleUp :: "real \<Rightarrow> real" where
  "scaleUp x = (if 0 < x \<and> x < 2 ^ 52 then scaleUp (2 * x) / 2 else of_int (roundHalfEven x))"
  by pat_completeness auto
termination
proof (relation "measure (\<lambda>x. nat \<lceil>2 ^ 52 / x\<rceil>)")
  show "wf (measure (\<lambda>x. nat \<lceil>2 ^ 52 / x\<rceil>))" by simp
next
  fix x :: real
  assume a: "0 < x \<and> x < 2 ^ 52"
  define y where "y = 2 ^ 52 / x"
  from a have y: "1 < y" by (simp add: y_def)
  have h: "2 ^ 52 / (2 * x) = y / 2" by (simp add: y_def)
  from y have c: "2 \<le> \<lceil>y\<rceil>" by linarith
  from c have c': "(2::real) \<le> of_int \<lceil>y\<rceil>" by linarith
  have "y \<le> of_int \<lceil>y\<rceil>" by linarith
  with c' have "y / 2 \<le> of_int \<lceil>y\<rceil> - 1" by linarith
  then have "y / 2 \<le> of_int (\<lceil>y\<rceil> - 1)" by simp
  then have "\<lceil>y / 2\<rceil> \<le> \<lceil>y\<rceil> - 1" by (simp only: ceiling_le_iff)
  then have "\<lceil>y / 2\<rceil> < \<lceil>y\<rceil>" by simp
  moreover from c have "0 < \<lceil>y\<rceil>" by simp
  ultimately have "nat \<lceil>y / 2\<rceil> < nat \<lceil>y\<rceil>" by linarith
  then have "nat \<lceil>2 ^ 52 / (2 * x)\<rceil> < nat \<lceil>2 ^ 52 / x\<rceil>"
    by (simp only: h y_def [symmetric])
  then show "(2 * x, x) \<in> measure (\<lambda>x. nat \<lceil>2 ^ 52 / x\<rceil>)"
    by (simp only: in_measure)
qed

definition round64 :: "real \<Rightarrow> real" where
  "round64 x =
     (if x = 0 then 0
      else if 0 < x then (if 2 ^ 53 \<le> x then scaleDown x else scaleUp x)
      else - (if 2 ^ 53 \<le> - x then scaleDown (- x) else scaleUp (- x)))"

text \<open>
  The arithmetic of numbers. Adding zero is exact; every other finite sum, product and
  quotient is rounded. A difference is the sum with the negated number, as in IEEE 754.
\<close>

instantiation number :: "{plus, uminus, minus, times, inverse, ord}"
begin

fun plus_number :: "number \<Rightarrow> number \<Rightarrow> number" where
  "plus_number (Fin a) (Fin b) = Fin (if a = 0 then b else if b = 0 then a else round64 (a + b))"
| "plus_number NaN _ = NaN"
| "plus_number _ NaN = NaN"
| "plus_number PInf NInf = NaN"
| "plus_number NInf PInf = NaN"
| "plus_number PInf _ = PInf"
| "plus_number _ PInf = PInf"
| "plus_number NInf _ = NInf"
| "plus_number _ NInf = NInf"

fun uminus_number :: "number \<Rightarrow> number" where
  "uminus_number (Fin a) = Fin (- a)"
| "uminus_number PInf = NInf"
| "uminus_number NInf = PInf"
| "uminus_number NaN = NaN"

definition minus_number :: "number \<Rightarrow> number \<Rightarrow> number" where
  "minus_number a b = a + (- b)"

fun times_number :: "number \<Rightarrow> number \<Rightarrow> number" where
  "times_number (Fin a) (Fin b) = Fin (round64 (a * b))"
| "times_number NaN _ = NaN"
| "times_number _ NaN = NaN"
| "times_number PInf (Fin b) = (if 0 < b then PInf else if b < 0 then NInf else NaN)"
| "times_number NInf (Fin b) = (if 0 < b then NInf else if b < 0 then PInf else NaN)"
| "times_number (Fin a) PInf = (if 0 < a then PInf else if a < 0 then NInf else NaN)"
| "times_number (Fin a) NInf = (if 0 < a then NInf else if a < 0 then PInf else NaN)"
| "times_number PInf PInf = PInf"
| "times_number PInf NInf = NInf"
| "times_number NInf PInf = NInf"
| "times_number NInf NInf = PInf"

fun divide_number :: "number \<Rightarrow> number \<Rightarrow> number" where
  "divide_number (Fin a) (Fin b) =
     (if b \<noteq> 0 then Fin (round64 (a / b))
      else if 0 < a then PInf else if a < 0 then NInf else NaN)"
| "divide_number NaN _ = NaN"
| "divide_number _ NaN = NaN"
| "divide_number (Fin a) PInf = Fin 0"
| "divide_number (Fin a) NInf = Fin 0"
| "divide_number PInf (Fin b) = (if 0 \<le> b then PInf else NInf)"
| "divide_number NInf (Fin b) = (if 0 \<le> b then NInf else PInf)"
| "divide_number _ _ = NaN"

definition inverse_number :: "number \<Rightarrow> number" where
  "inverse_number a = divide (Fin 1) a"

fun less_eq_number :: "number \<Rightarrow> number \<Rightarrow> bool" where
  "less_eq_number (Fin a) (Fin b) = (a \<le> b)"
| "less_eq_number NaN _ = False"
| "less_eq_number _ NaN = False"
| "less_eq_number NInf _ = True"
| "less_eq_number _ PInf = True"
| "less_eq_number _ _ = False"

fun less_number :: "number \<Rightarrow> number \<Rightarrow> bool" where
  "less_number (Fin a) (Fin b) = (a < b)"
| "less_number NaN _ = False"
| "less_number _ NaN = False"
| "less_number PInf _ = False"
| "less_number _ NInf = False"
| "less_number _ _ = True"

instance ..

end

text \<open>\<^verbatim>\<open>Math.min\<close>, \<^verbatim>\<open>Math.max\<close> and \<^verbatim>\<open>Math.ceil\<close>: \<open>NaN\<close> if an argument is.\<close>

definition Math_min :: "number \<Rightarrow> number \<Rightarrow> number" where
  "Math_min a b = (if a = NaN \<or> b = NaN then NaN else if a \<le> b then a else b)"

definition Math_max :: "number \<Rightarrow> number \<Rightarrow> number" where
  "Math_max a b = (if a = NaN \<or> b = NaN then NaN else if a \<le> b then b else a)"

fun Math_ceil :: "number \<Rightarrow> number" where
  "Math_ceil (Fin a) = Fin (of_int \<lceil>a\<rceil>)"
| "Math_ceil x = x"

text \<open>
  A number is falsy when it is zero or \<open>NaN\<close>. \<open>v || d\<close>, for \<open>v\<close> a number or
  \<^verbatim>\<open>undefined\<close> (the result of \<^verbatim>\<open>Map.get\<close> on a missing key), is \<open>d\<close> when \<open>v\<close> is
  falsy or \<^verbatim>\<open>undefined\<close>.
\<close>

definition truthy :: "number \<Rightarrow> bool" where
  "truthy v = (v \<noteq> Fin 0 \<and> v \<noteq> NaN)"

definition orElse :: "number option \<Rightarrow> number \<Rightarrow> number" where
  "orElse v d = (case v of None \<Rightarrow> d | Some x \<Rightarrow> if truthy x then x else d)"

section \<open>Data model (\<^verbatim>\<open>types.ts\<close>)\<close>

datatype allocation_type = percentage | fixed

record AccountAllocation =
  account_id :: string
  allocation_type :: allocation_type
  allocation_value :: number

record Account =
  account_id :: string
  name :: string
  balance :: number
  account_type :: "string option"

record Goal =
  id' :: string
  name :: string
  target_amount :: number
  target_date :: "string option"
  allocations :: "AccountAllocation list option"
  starting_balance :: number
  icon :: string
  color :: string
  active :: bool
  completed :: bool
  completed_at :: "string option"
  created_at :: string
  updated_at :: string

section \<open>Allocation resolver (\<^verbatim>\<open>calculateBalances\<close>)\<close>

text \<open>
  The inner loop of \<^verbatim>\<open>calculateBalances\<close>, \<^verbatim>\<open>for (const alloc of goal.allocations)\<close>,
  with the running \<^verbatim>\<open>total\<close> as the accumulator \<open>total'\<close>. \<^verbatim>\<open>accounts.find\<close> returns the first account
  with the rule's identifier, or \<^verbatim>\<open>undefined\<close>, and then the rule is skipped.
\<close>

fun allocatedTotal :: "Account list \<Rightarrow> number \<Rightarrow> AccountAllocation list \<Rightarrow> number" where
  "allocatedTotal accounts total' [] = total'"
| "allocatedTotal accounts total' (alloc # rest) =
     allocatedTotal accounts
       (case find (\<lambda>a. Account.account_id a = AccountAllocation.account_id alloc) accounts of
          None \<Rightarrow> total'
        | Some account \<Rightarrow>
            if allocation_type alloc = percentage
            then total' + (balance account * allocation_value alloc) / Fin 100
            else total' + Math_min (allocation_value alloc) (balance account))
       rest"

text \<open>
  The body of the outer loop: the value stored for one goal. A goal whose \<^verbatim>\<open>allocations\<close>
  are \<^verbatim>\<open>null\<close> or empty keeps its starting balance.
\<close>

definition goalBalance :: "Account list \<Rightarrow> Goal \<Rightarrow> number" where
  "goalBalance accounts goal =
     (case allocations goal of
        None \<Rightarrow> starting_balance goal
      | Some allocs \<Rightarrow>
          if length allocs > 0 then allocatedTotal accounts (Fin 0) allocs
          else starting_balance goal)"

fun balancesLoop :: "Account list \<Rightarrow> (string \<rightharpoonup> number) \<Rightarrow> Goal list \<Rightarrow> (string \<rightharpoonup> number)" where
  "balancesLoop accounts balances [] = balances"
| "balancesLoop accounts balances (goal # rest) =
     balancesLoop accounts (balances(id' goal \<mapsto> goalBalance accounts goal)) rest"

definition calculateBalances :: "Goal list \<Rightarrow> Account list \<Rightarrow> (string \<rightharpoonup> number)" where
  "calculateBalances goals accounts = balancesLoop accounts Map.empty goals"

section \<open>Progress, remaining amount and pacing\<close>

definition getProgress :: "(string \<rightharpoonup> number) \<Rightarrow> Goal \<Rightarrow> number" where
  "getProgress goalBalances goal =
     (let current = orElse (goalBalances (id' goal)) (Fin 0);
          saved = current - starting_balance goal;
          needed = target_amount goal - starting_balance goal
      in if needed \<le> Fin 0 then Fin 100
         else Math_min (Fin 100) (Math_max (Fin 0) ((saved / needed) * Fin 100)))"

definition getCurrentAmount :: "(string \<rightharpoonup> number) \<Rightarrow> Goal \<Rightarrow> number" where
  "getCurrentAmount goalBalances goal =
     orElse (goalBalances (id' goal)) (starting_balance goal)"

definition getRemainingAmount :: "(string \<rightharpoonup> number) \<Rightarrow> Goal \<Rightarrow> number" where
  "getRemainingAmount goalBalances goal =
     (let current = getCurrentAmount goalBalances goal
      in Math_max (Fin 0) (target_amount goal - current))"

text \<open>
  The clock and the parser of dates are parameters: \<open>getTime s\<close> is
  \<^verbatim>\<open>new Date(s).getTime()\<close>, the milliseconds of the date \<open>s\<close> (\<open>NaN\<close> for a string that
  is no date), and \<open>today\<close> is \<^verbatim>\<open>new Date().getTime()\<close>. \<^verbatim>\<open>!goal.target_date\<close> holds for
  \<^verbatim>\<open>null\<close> and for the empty string.
\<close>

definition getDaysRemaining :: "(string \<Rightarrow> number) \<Rightarrow> number \<Rightarrow> Goal \<Rightarrow> number option" where
  "getDaysRemaining getTime today goal =
     (case target_date goal of
        None \<Rightarrow> None
      | Some d \<Rightarrow>
          if d = [] then None
          else (let target = getTime d;
                    diff = target - today
                in Some (Math_ceil (diff / Fin (1000 * 60 * 60 * 24)))))"

definition getMonthlyNeeded ::
  "(string \<Rightarrow> number) \<Rightarrow> number \<Rightarrow> (string \<rightharpoonup> number) \<Rightarrow> Goal \<Rightarrow> number option" where
  "getMonthlyNeeded getTime today goalBalances goal =
     (case getDaysRemaining getTime today goal of
        None \<Rightarrow> None
      | Some days \<Rightarrow>
          if days \<le> Fin 0 then None
          else (let remaining = getRemainingAmount goalBalances goal;
                    months = days / Fin 30
                in Some (remaining / months)))"

text \<open>
  The local constants \<^verbatim>\<open>totalDays\<close> and \<^verbatim>\<open>expectedProgress\<close> of \<^verbatim>\<open>isOnTrack\<close>, as
  functions of what they are computed from: the goal, its target date \<open>d\<close> (not
  \<^verbatim>\<open>null\<close>) and the days remaining. Nothing guards the division by \<^verbatim>\<open>totalDays\<close>.
\<close>

definition totalDays :: "(string \<Rightarrow> number) \<Rightarrow> Goal \<Rightarrow> string \<Rightarrow> number" where
  "totalDays getTime goal d =
     (getTime d - getTime (created_at goal)) / Fin (1000 * 60 * 60 * 24)"

definition expectedProgress ::
  "(string \<Rightarrow> number) \<Rightarrow> Goal \<Rightarrow> string \<Rightarrow> number \<Rightarrow> number" where
  "expectedProgress getTime goal d days =
     (let elapsed = totalDays getTime goal d - days
      in (elapsed / totalDays getTime goal d) * Fin 100)"

definition isOnTrack ::
  "(string \<Rightarrow> number) \<Rightarrow> number \<Rightarrow> (string \<rightharpoonup> number) \<Rightarrow> Goal \<Rightarrow> bool option" where
  "isOnTrack getTime today goalBalances goal =
     (case target_date goal of
        None \<Rightarrow> None
      | Some d \<Rightarrow>
          if d = [] then None
          else (case getDaysRemaining getTime today goal of
                  None \<Rightarrow> None
                | Some days \<Rightarrow>
                    (let actualProgress = getProgress goalBalances goal
                     in Some (actualProgress \<ge> expectedProgress getTime goal d days - Fin 5))))"

section \<open>Derived state: the totals over the active goals\<close>




section \<open>The specification's formulas\<close>

text \<open>
  The sum of a list of numbers, added from left to right starting from 0 (in floating
  point the order matters to the last bit, and this is the order of the rules), and the
  contribution of one allocation rule as the specification words it: \<open>account.balance * value / 100\<close> for a percentage rule,
  \<open>min(value, account.balance)\<close> for a fixed rule. \<open>spec_contributions\<close> lists the
  contributions of the rules whose account is in the snapshot, in the order of the rules.
\<close>

definition sum_numbers :: "number list \<Rightarrow> number" where
  "sum_numbers xs = foldl (+) (Fin 0) xs"

definition spec_contribution :: "Account \<Rightarrow> AccountAllocation \<Rightarrow> number" where
  "spec_contribution account rule =
     (case allocation_type rule of
        percentage \<Rightarrow> balance account * allocation_value rule / Fin 100
      | fixed \<Rightarrow> Math_min (allocation_value rule) (balance account))"

definition spec_contributions :: "Account list \<Rightarrow> AccountAllocation list \<Rightarrow> number list" where
  "spec_contributions accounts rules =
     List.map_filter
       (\<lambda>rule. map_option (\<lambda>account. spec_contribution account rule)
          (find (\<lambda>a. Account.account_id a = AccountAllocation.account_id rule) accounts))
       rules"



text \<open>\<open>clamp(x, lo, hi)\<close> of the specification's progress formula.\<close>

definition spec_clamp :: "number \<Rightarrow> number \<Rightarrow> number \<Rightarrow> number" where
  "spec_clamp x lo hi = Math_min hi (Math_max lo x)"

section \<open>Sample data: the scenarios of the specification\<close>

definition checkingAccount :: Account where
  "checkingAccount = \<lparr>Account.account_id = ''acc-checking'', name = ''Checking'',
     balance = Fin 4000, account_type = Some ''depository''\<rparr>"

definition savingsAccount :: Account where
  "savingsAccount = \<lparr>Account.account_id = ''acc-savings'', name = ''Savings'',
     balance = Fin 3000, account_type = None\<rparr>"

definition snapshot :: "Account list" where
  "snapshot = [checkingAccount, savingsAccount]"

definition rule_of :: "string \<Rightarrow> allocation_type \<Rightarrow> real \<Rightarrow> AccountAllocation" where
  "rule_of aid kind v =
     \<lparr>AccountAllocation.account_id = aid, allocation_type = kind, allocation_value = Fin v\<rparr>"

text \<open>A goal tracked by hand: no rules, no deadline, 250 saved of 1000.\<close>

definition manualGoal :: Goal where
  "manualGoal = \<lparr>id' = ''goal-manual'', name = ''Bike'', target_amount = Fin 1000,
     target_date = None, allocations = None, starting_balance = Fin 250,
     icon = ''*'', color = ''#3b82f6'', active = True, completed = False,
     completed_at = None, created_at = ''2025-01-01T00:00:00.000Z'',
     updated_at = ''2025-01-01T00:00:00.000Z''\<rparr>"

text \<open>Scenario A: target 10000, starting 0, 50 percent of an account holding 4000.\<close>

definition scenarioA :: Goal where
  "scenarioA = manualGoal\<lparr>id' := ''goal-a'', target_amount := Fin 10000,
     starting_balance := Fin 0,
     allocations := Some [rule_of ''acc-checking'' percentage 50]\<rparr>"

text \<open>Scenario B: target 5000, starting 1000, a fixed 10000 on an account holding 3000.\<close>

definition scenarioB :: Goal where
  "scenarioB = manualGoal\<lparr>id' := ''goal-b'', target_amount := Fin 5000,
     starting_balance := Fin 1000,
     allocations := Some [rule_of ''acc-savings'' fixed 10000]\<rparr>"

text \<open>
  Scenario C: created on 2025-01-01, due on 2025-04-01 (90 days), looked at on 2025-03-02
  (60 days after creation, 30 days before the deadline), with 400 saved of 1000.
\<close>

definition scenarioC :: Goal where
  "scenarioC = manualGoal\<lparr>id' := ''goal-c'', target_amount := Fin 1000,
     starting_balance := Fin 0, target_date := Some ''2025-04-01'',
     allocations := Some [rule_of ''acc-checking'' percentage 10]\<rparr>"

text \<open>Scenario D: the deadline is the day of creation.\<close>

definition scenarioD :: Goal where
  "scenarioD = scenarioC\<lparr>id' := ''goal-d'', target_date := Some ''2025-01-01''\<rparr>"

text \<open>
  Scenario D again, fully funded: a quarter of the account holding 4000 covers the target
  of 1000.
\<close>

definition fundedGoal :: Goal where
  "fundedGoal = scenarioD\<lparr>id' := ''goal-funded'',
     allocations := Some [rule_of ''acc-checking'' percentage 25]\<rparr>"

text \<open>
  A goal at the edge of the tolerance band: created on 2025-01-01, due on 2025-01-21
  (20 days), looked at on 2025-01-12 (9 days before the deadline), with 500 saved of 1000.
\<close>

definition bandEdgeGoal :: Goal where
  "bandEdgeGoal = scenarioC\<lparr>id' := ''goal-edge'', target_date := Some ''2025-01-21'',
     allocations := Some [rule_of ''acc-checking'' percentage (25 / 2)]\<rparr>"

text \<open>Scenario E: the starting balance exceeds the target.\<close>

definition scenarioE :: Goal where
  "scenarioE = manualGoal\<lparr>id' := ''goal-e'', target_amount := Fin 5000,
     starting_balance := Fin 6000\<rparr>"

text \<open>A goal whose only rule points at an account that is not in the snapshot.\<close>

definition orphanGoal :: Goal where
  "orphanGoal = manualGoal\<lparr>id' := ''goal-orphan'', target_amount := Fin 2000,
     starting_balance := Fin 500,
     allocations := Some [rule_of ''acc-closed'' percentage 100]\<rparr>"

text \<open>Timestamps in milliseconds since 1970-01-01 UTC, as \<^verbatim>\<open>Date.getTime\<close> gives them.\<close>

definition sampleGetTime :: "string \<Rightarrow> number" where
  "sampleGetTime s =
     (if s = ''2025-01-01T00:00:00.000Z'' \<or> s = ''2025-01-01'' then Fin 1735689600000
      else if s = ''2025-04-01'' then Fin 1743465600000
      else if s = ''2025-01-21'' then Fin 1737417600000
      else NaN)"

definition march2 :: number where
  "march2 = Fin 1740873600000"

definition january1 :: number where
  "january1 = Fin 1735689600000"

definition january12 :: number where
  "january12 = Fin 1736640000000"

definition december31 :: number where
  "december31 = Fin 1735603200000"

section \<open>Arithmetic of numbers\<close>

lemmas round64_eval = round64_def roundHalfEven_def Let_def

lemma number_zero_add: "Fin 0 + a = a"
  by (cases a) simp_all

lemma number_add_zero: "a + Fin 0 = a"
  by (cases a) simp_all

lemma Fin_minus:
  "Fin a - Fin b = Fin (if a = 0 then - b else if b = 0 then a else round64 (a - b))"
  by (simp add: minus_number_def)

lemma Fin_minus_Fin: "\<exists>c. Fin a - Fin b = Fin c"
  by (simp add: Fin_minus)

lemma Math_min_not_above: "\<not> b < Math_min a b"
  by (cases a; cases b) (simp_all add: Math_min_def)

lemma Math_min_le: "a \<noteq> NaN \<Longrightarrow> b \<noteq> NaN \<Longrightarrow> Math_min a b \<le> b"
  by (cases a; cases b) (simp_all add: Math_min_def)

section \<open>The allocation resolver\<close>

lemma allocatedTotal_append:
  "allocatedTotal accounts t (xs @ ys) = allocatedTotal accounts (allocatedTotal accounts t xs) ys"
  by (induction xs arbitrary: t) simp_all

lemma allocatedTotal_foldl:
  "allocatedTotal accounts t rules = foldl (+) t (spec_contributions accounts rules)"
proof (induction rules arbitrary: t)
  case Nil
  show ?case
    by (simp add: spec_contributions_def List.map_filter_simps)
next
  case (Cons rule rules)
  show ?case
  proof (cases "find (\<lambda>a. Account.account_id a = AccountAllocation.account_id rule) accounts")
    case None
    then show ?thesis
      using Cons.IH [of t] by (simp add: spec_contributions_def List.map_filter_simps)
  next
    case (Some account)
    then show ?thesis
      using Cons.IH
      by (cases "allocation_type rule")
         (simp_all add: spec_contributions_def List.map_filter_simps spec_contribution_def)
  qed
qed

lemma allocatedTotal_sum:
  "allocatedTotal accounts (Fin 0) rules = sum_numbers (spec_contributions accounts rules)"
  by (simp add: allocatedTotal_foldl sum_numbers_def)

lemma balancesLoop_other:
  "k \<notin> id' ` set goals \<Longrightarrow> balancesLoop accounts m goals k = m k"
  by (induction goals arbitrary: m) auto

lemma balancesLoop_lookup:
  "distinct (map id' goals) \<Longrightarrow> g \<in> set goals \<Longrightarrow>
   balancesLoop accounts m goals (id' g) = Some (goalBalance accounts g)"
proof (induction goals arbitrary: m)
  case Nil
  then show ?case by simp
next
  case (Cons x goals)
  show ?case
  proof (cases "g = x")
    case True
    with Cons.prems show ?thesis by (simp add: balancesLoop_other)
  next
    case False
    with Cons show ?thesis by simp
  qed
qed

lemma balancesLoop_dom:
  "dom (balancesLoop accounts m goals) = dom m \<union> id' ` set goals"
  by (induction goals arbitrary: m) auto

lemma calculateBalances_dom:
  "dom (calculateBalances goals accounts) = id' ` set goals"
  by (simp add: calculateBalances_def balancesLoop_dom)

lemma calculateBalances_lookup:
  "distinct (map id' goals) \<Longrightarrow> g \<in> set goals \<Longrightarrow>
   calculateBalances goals accounts (id' g) = Some (goalBalance accounts g)"
  by (simp add: calculateBalances_def balancesLoop_lookup)

text \<open>
  C8. A goal whose allocation list is \<^verbatim>\<open>null\<close> or empty resolves to its starting balance:
  that is the value the loop body computes for it, and the value \<^verbatim>\<open>calculateBalances\<close>
  stores under the goal's identifier (identifiers being distinct, as primary keys are).
\<close>

theorem manual_goal_keeps_starting_balance:
  assumes "allocations goal = None \<or> allocations goal = Some []"
  shows "goalBalance accounts goal = starting_balance goal \<and>
         (goal \<in> set goals \<and> distinct (map id' goals) \<longrightarrow>
            calculateBalances goals accounts (id' goal) = Some (starting_balance goal))"
proof -
  from assms have g: "goalBalance accounts goal = starting_balance goal"
    by (auto simp: goalBalance_def)
  then show ?thesis
    using calculateBalances_lookup [of goals goal accounts] by auto
qed

theorem manual_goal_keeps_starting_balance_witness:
  "goalBalance snapshot manualGoal = Fin 250 \<and>
   calculateBalances [scenarioA, manualGoal] snapshot ''goal-manual'' = Some (Fin 250)"
proof -
  have a: "allocations manualGoal = None \<or> allocations manualGoal = Some []"
    by (simp add: manualGoal_def)
  have d: "manualGoal \<in> set [scenarioA, manualGoal]
           \<and> distinct (map id' [scenarioA, manualGoal])"
    by (simp add: manualGoal_def scenarioA_def)
  show ?thesis
    using manual_goal_keeps_starting_balance [OF a, of snapshot "[scenarioA, manualGoal]"] d
    by (simp add: manualGoal_def)
qed

text \<open>
  C1. For a goal with a non-empty allocation list, the resolved amount is the sum, over the
  rules whose account is in the snapshot, of \<open>balance * value / 100\<close> for a percentage
  rule and \<open>min(value, balance)\<close> for a fixed rule. What a fixed rule adds to the total
  (the loop run on that rule alone, from zero) never exceeds the balance of its account,
  and is at most that balance whenever neither the rule's value nor the balance is \<open>NaN\<close>
  (a comparison with \<open>NaN\<close> is false in JavaScript).
\<close>

theorem resolver_sums_contributions:
  assumes "allocations goal = Some rules" and "rules \<noteq> []"
  shows "goalBalance accounts goal = sum_numbers (spec_contributions accounts rules) \<and>
         (\<forall>rule \<in> set rules. \<forall>account.
            find (\<lambda>a. Account.account_id a = AccountAllocation.account_id rule) accounts
              = Some account \<and> allocation_type rule = fixed \<longrightarrow>
            allocatedTotal accounts (Fin 0) [rule] = Math_min (allocation_value rule) (balance account) \<and>
            \<not> balance account < allocatedTotal accounts (Fin 0) [rule] \<and>
            (allocation_value rule \<noteq> NaN \<and> balance account \<noteq> NaN \<longrightarrow>
               allocatedTotal accounts (Fin 0) [rule] \<le> balance account))"
proof -
  from assms have "goalBalance accounts goal = allocatedTotal accounts (Fin 0) rules"
    by (simp add: goalBalance_def)
  then have total: "goalBalance accounts goal = sum_numbers (spec_contributions accounts rules)"
    by (simp add: allocatedTotal_sum)
  have capped: "allocatedTotal accounts (Fin 0) [rule] = Math_min (allocation_value rule) (balance account) \<and>
      \<not> balance account < allocatedTotal accounts (Fin 0) [rule] \<and>
      (allocation_value rule \<noteq> NaN \<and> balance account \<noteq> NaN \<longrightarrow>
         allocatedTotal accounts (Fin 0) [rule] \<le> balance account)"
    if "find (\<lambda>a. Account.account_id a = AccountAllocation.account_id rule) accounts = Some account"
      and "allocation_type rule = fixed"
    for rule account
    using that by (simp add: number_zero_add Math_min_not_above Math_min_le)
  from total capped show ?thesis by blast
qed

theorem resolver_sums_contributions_witness:
  "goalBalance snapshot scenarioA = Fin 2000 \<and>
   goalBalance snapshot scenarioB = Fin 3000 \<and>
   allocatedTotal snapshot (Fin 0) [rule_of ''acc-savings'' fixed 10000] = Fin 3000 \<and>
   Fin 3000 \<le> balance savingsAccount"
proof -
  have a: "allocations scenarioA = Some [rule_of ''acc-checking'' percentage 50]"
    and b: "allocations scenarioB = Some [rule_of ''acc-savings'' fixed 10000]"
    by (simp_all add: round64_eval scenarioA_def scenarioB_def manualGoal_def)
  have f: "find (\<lambda>a. Account.account_id a
        = AccountAllocation.account_id (rule_of ''acc-savings'' fixed 10000)) snapshot
      = Some savingsAccount"
    by (simp add: round64_eval snapshot_def checkingAccount_def savingsAccount_def rule_of_def)
  have A: "goalBalance snapshot scenarioA = Fin 2000"
    using resolver_sums_contributions [OF a, of snapshot]
    by (simp add: round64_eval sum_numbers_def spec_contributions_def List.map_filter_simps
        spec_contribution_def snapshot_def checkingAccount_def savingsAccount_def rule_of_def)
  have B: "goalBalance snapshot scenarioB = Fin 3000 \<and>
      allocatedTotal snapshot (Fin 0) [rule_of ''acc-savings'' fixed 10000] = Fin 3000 \<and>
      Fin 3000 \<le> balance savingsAccount"
    using resolver_sums_contributions [OF b, of snapshot] f
    by (simp add: round64_eval sum_numbers_def spec_contributions_def List.map_filter_simps
        spec_contribution_def Math_min_def snapshot_def checkingAccount_def savingsAccount_def
        rule_of_def)
  from A B show ?thesis by simp
qed

text \<open>
  C6. A rule whose account is not in the snapshot is skipped: \<^verbatim>\<open>accounts.find\<close> returns
  \<^verbatim>\<open>undefined\<close>, the guard \<^verbatim>\<open>if (account)\<close> fails and the running total is left as it
  was, so the resolved amount is the total of the other rules, and zero when no rule has
  an account. The loop has no \<^verbatim>\<open>throw\<close> and no failing operation, so the model has no
  error result: the resolver returns a number, and \<^verbatim>\<open>calculateBalances\<close> stores one for
  every goal of the list.
\<close>

theorem missing_account_contributes_zero:
  assumes "allocations goal = Some (before @ rule # after)"
    and "find (\<lambda>a. Account.account_id a = AccountAllocation.account_id rule) accounts = None"
  shows "allocatedTotal accounts t [rule] = t \<and>
         allocatedTotal accounts t (before @ rule # after) = allocatedTotal accounts t (before @ after) \<and>
         goalBalance accounts goal = allocatedTotal accounts (Fin 0) (before @ after) \<and>
         goalBalance accounts goal = sum_numbers (spec_contributions accounts (before @ after)) \<and>
         (before @ after = [] \<longrightarrow> goalBalance accounts goal = Fin 0) \<and>
         (goal \<in> set goals \<longrightarrow> calculateBalances goals accounts (id' goal) \<noteq> None)"
proof -
  from assms(2) have one: "allocatedTotal accounts t [rule] = t" for t
    by simp
  from assms(2) have skip:
    "allocatedTotal accounts t (before @ rule # after) = allocatedTotal accounts t (before @ after)"
    for t
    by (simp add: allocatedTotal_append)
  from assms(1) have "goalBalance accounts goal = allocatedTotal accounts (Fin 0) (before @ rule # after)"
    by (simp add: goalBalance_def)
  with skip have g: "goalBalance accounts goal = allocatedTotal accounts (Fin 0) (before @ after)"
    by simp
  then have s: "goalBalance accounts goal = sum_numbers (spec_contributions accounts (before @ after))"
    by (simp add: allocatedTotal_sum)
  from g have z: "before @ after = [] \<longrightarrow> goalBalance accounts goal = Fin 0"
    by auto
  have d: "goal \<in> set goals \<longrightarrow> calculateBalances goals accounts (id' goal) \<noteq> None"
    using calculateBalances_dom [of goals accounts] by auto
  from one skip g s z d show ?thesis by blast
qed

theorem missing_account_contributes_zero_witness:
  "goalBalance snapshot orphanGoal = Fin 0 \<and>
   calculateBalances [orphanGoal] snapshot ''goal-orphan'' \<noteq> None"
proof -
  have a: "allocations orphanGoal = Some ([] @ rule_of ''acc-closed'' percentage 100 # [])"
    by (simp add: round64_eval orphanGoal_def manualGoal_def)
  have f: "find (\<lambda>a. Account.account_id a
        = AccountAllocation.account_id (rule_of ''acc-closed'' percentage 100)) snapshot = None"
    by (simp add: round64_eval snapshot_def checkingAccount_def savingsAccount_def rule_of_def)
  have i: "id' orphanGoal = ''goal-orphan''"
    by (simp add: round64_eval orphanGoal_def manualGoal_def)
  show ?thesis
    using missing_account_contributes_zero [OF a f, of "Fin 0" "[orphanGoal]"] i
    by simp
qed

section \<open>Progress and the current-amount accessor\<close>

lemma orElse_not_NaN: "d \<noteq> NaN \<Longrightarrow> orElse v d \<noteq> NaN"
  by (cases v) (auto simp: orElse_def truthy_def)

lemma orElse_stored: "c \<noteq> NaN \<Longrightarrow> orElse (Some c) (Fin 0) = c"
  by (auto simp: orElse_def truthy_def)

lemma clamp_range:
  assumes "x \<noteq> NaN"
  shows "\<exists>p. Math_min (Fin 100) (Math_max (Fin 0) x) = Fin p \<and> 0 \<le> p \<and> p \<le> 100"
  using assms by (cases x) (auto simp: Math_min_def Math_max_def)

lemma scaled_quotient_not_NaN:
  assumes "c \<noteq> NaN" and "0 < k"
  shows "((c - Fin s) / Fin k) * Fin 100 \<noteq> NaN"
  using assms by (cases c) (auto simp: minus_number_def)

lemma getProgress_range:
  assumes "target_amount goal = Fin t" and "starting_balance goal = Fin s"
  shows "\<exists>p. getProgress goalBalances goal = Fin p \<and> 0 \<le> p \<and> p \<le> 100"
proof -
  obtain n where n: "Fin t - Fin s = Fin n"
    using Fin_minus_Fin by blast
  show ?thesis
  proof (cases "n \<le> 0")
    case True
    with assms n show ?thesis
      by (simp add: getProgress_def Let_def)
  next
    case False
    have "orElse (goalBalances (id' goal)) (Fin 0) \<noteq> NaN"
      by (simp add: orElse_not_NaN)
    with False have "((orElse (goalBalances (id' goal)) (Fin 0) - Fin s) / Fin n) * Fin 100 \<noteq> NaN"
      by (intro scaled_quotient_not_NaN) simp_all
    from clamp_range [OF this] False assms n show ?thesis
      by (simp add: getProgress_def Let_def)
  qed
qed

text \<open>
  C2. With \<open>needed = target_amount - starting_balance\<close>, the progress of a goal whose
  stored balance is \<open>currentAmount\<close> is 100 when \<open>needed \<le> 0\<close> and
  \<open>clamp((currentAmount - starting_balance) / needed * 100, 0, 100)\<close> otherwise. For every
  goal whose target amount and starting balance are finite numbers (they are loaded from
  \<^verbatim>\<open>DECIMAL(15,2)\<close> columns through \<^verbatim>\<open>Number(..) || 0\<close>), and whatever the stored
  balances are, the progress lies between 0 and 100.
\<close>

theorem progress_formula_and_range:
  "(\<forall>currentAmount. goalBalances (id' goal) = Some currentAmount \<and> currentAmount \<noteq> NaN \<longrightarrow>
      getProgress goalBalances goal =
        (let needed = target_amount goal - starting_balance goal
         in if needed \<le> Fin 0 then Fin 100
            else spec_clamp ((currentAmount - starting_balance goal) / needed * Fin 100)
                   (Fin 0) (Fin 100))) \<and>
   (\<forall>t s. target_amount goal = Fin t \<and> starting_balance goal = Fin s \<longrightarrow>
      Fin 0 \<le> getProgress goalBalances goal \<and> getProgress goalBalances goal \<le> Fin 100)"
proof -
  have formula: "getProgress goalBalances goal =
        (let needed = target_amount goal - starting_balance goal
         in if needed \<le> Fin 0 then Fin 100
            else spec_clamp ((currentAmount - starting_balance goal) / needed * Fin 100)
                   (Fin 0) (Fin 100))"
    if "goalBalances (id' goal) = Some currentAmount" and "currentAmount \<noteq> NaN"
    for currentAmount
    using that by (simp add: getProgress_def Let_def spec_clamp_def orElse_stored)
  have range: "Fin 0 \<le> getProgress goalBalances goal \<and> getProgress goalBalances goal \<le> Fin 100"
    if "target_amount goal = Fin t" and "starting_balance goal = Fin s" for t s
    using getProgress_range [OF that, of goalBalances] by auto
  from formula range show ?thesis by blast
qed

theorem progress_formula_and_range_witness:
  "getProgress (calculateBalances [scenarioA, scenarioB, scenarioE] snapshot) scenarioA = Fin 20 \<and>
   getProgress (calculateBalances [scenarioA, scenarioB, scenarioE] snapshot) scenarioB = Fin 50 \<and>
   getProgress (calculateBalances [scenarioA, scenarioB, scenarioE] snapshot) scenarioE = Fin 100 \<and>
   Fin 0 \<le> getProgress (calculateBalances [scenarioA, scenarioB, scenarioE] snapshot) scenarioB"
proof -
  let ?gb = "calculateBalances [scenarioA, scenarioB, scenarioE] snapshot"
  have gb: "?gb (id' scenarioA) = Some (Fin 2000)" "?gb (id' scenarioB) = Some (Fin 3000)"
    "?gb (id' scenarioE) = Some (Fin 6000)"
    by (simp_all add: round64_eval calculateBalances_def goalBalance_def scenarioA_def scenarioB_def
        scenarioE_def manualGoal_def snapshot_def checkingAccount_def savingsAccount_def
        rule_of_def Math_min_def)
  have fields: "target_amount scenarioB = Fin 5000 \<and> starting_balance scenarioB = Fin 1000"
    by (simp add: round64_eval scenarioB_def manualGoal_def)
  have A: "getProgress ?gb scenarioA = Fin 20"
    using progress_formula_and_range [of ?gb scenarioA] gb(1)
    by (simp add: round64_eval spec_clamp_def Math_min_def Math_max_def Fin_minus scenarioA_def manualGoal_def)
  have B: "getProgress ?gb scenarioB = Fin 50 \<and> Fin 0 \<le> getProgress ?gb scenarioB"
    using progress_formula_and_range [of ?gb scenarioB] gb(2) fields
    by (simp add: round64_eval spec_clamp_def Math_min_def Math_max_def Fin_minus)
  have E: "getProgress ?gb scenarioE = Fin 100"
    using progress_formula_and_range [of ?gb scenarioE] gb(3)
    by (simp add: round64_eval spec_clamp_def Math_min_def Math_max_def Fin_minus scenarioE_def manualGoal_def)
  from A B E show ?thesis by simp
qed

text \<open>
  C10. \<^verbatim>\<open>getCurrentAmount\<close> is \<^verbatim>\<open>goalBalances.get(goal.id) || goal.starting_balance\<close>, and
  0 is falsy: a goal whose stored balance is 0 is reported with its starting balance, and
  \<^verbatim>\<open>getRemainingAmount\<close> subtracts that starting balance from the target. The same
  happens for every falsy stored value.
\<close>

theorem zero_balance_reported_as_starting_balance:
  assumes "goalBalances (id' goal) = Some (Fin 0)"
  shows "getCurrentAmount goalBalances goal = starting_balance goal \<and>
         getRemainingAmount goalBalances goal
           = Math_max (Fin 0) (target_amount goal - starting_balance goal) \<and>
         (\<forall>v. \<not> truthy v \<longrightarrow>
            getCurrentAmount (goalBalances(id' goal \<mapsto> v)) goal = starting_balance goal)"
  using assms
  by (simp add: getCurrentAmount_def getRemainingAmount_def orElse_def truthy_def)

theorem zero_balance_reported_as_starting_balance_witness:
  "calculateBalances [orphanGoal] snapshot (id' orphanGoal) = Some (Fin 0) \<and>
   getCurrentAmount (calculateBalances [orphanGoal] snapshot) orphanGoal = Fin 500 \<and>
   getRemainingAmount (calculateBalances [orphanGoal] snapshot) orphanGoal = Fin 1500"
proof -
  have z: "calculateBalances [orphanGoal] snapshot (id' orphanGoal) = Some (Fin 0)"
    by (simp add: round64_eval calculateBalances_def goalBalance_def orphanGoal_def manualGoal_def
        snapshot_def checkingAccount_def savingsAccount_def rule_of_def)
  show ?thesis
    using zero_balance_reported_as_starting_balance
            [of "calculateBalances [orphanGoal] snapshot" orphanGoal] z
    by (simp add: round64_eval orphanGoal_def manualGoal_def Math_max_def Fin_minus)
qed

section \<open>Pacing\<close>

text \<open>
  C9. Without a target date (\<^verbatim>\<open>target_date\<close> is \<^verbatim>\<open>null\<close>) the three pacing values are
  all \<^verbatim>\<open>null\<close>.
\<close>

theorem no_target_date_no_pacing:
  assumes "target_date goal = None"
  shows "getDaysRemaining getTime today goal = None \<and>
         getMonthlyNeeded getTime today goalBalances goal = None \<and>
         isOnTrack getTime today goalBalances goal = None"
  using assms by (simp add: getDaysRemaining_def getMonthlyNeeded_def isOnTrack_def)

theorem no_target_date_no_pacing_witness:
  "getDaysRemaining sampleGetTime march2 manualGoal = None \<and>
   getMonthlyNeeded sampleGetTime march2 (calculateBalances [manualGoal] snapshot) manualGoal = None \<and>
   isOnTrack sampleGetTime march2 (calculateBalances [manualGoal] snapshot) manualGoal = None"
proof -
  have n: "target_date manualGoal = None"
    by (simp add: manualGoal_def)
  show ?thesis
    using no_target_date_no_pacing [OF n, of sampleGetTime march2
        "calculateBalances [manualGoal] snapshot"]
    by simp
qed

text \<open>
  C7. \<^verbatim>\<open>getMonthlyNeeded\<close> is \<^verbatim>\<open>null\<close> exactly when \<^verbatim>\<open>getDaysRemaining\<close> is \<^verbatim>\<open>null\<close>,
  which is when the goal has no target date (\<^verbatim>\<open>null\<close>, or the empty string, which
  \<^verbatim>\<open>!goal.target_date\<close> treats alike), or the days remaining are \<open>\<le> 0\<close>. Otherwise it is
  \<open>remaining / (daysRemaining / 30)\<close>.
\<close>

theorem monthly_needed_null_or_quotient:
  "(getDaysRemaining getTime today goal = None \<longleftrightarrow>
      target_date goal = None \<or> target_date goal = Some []) \<and>
   (getMonthlyNeeded getTime today goalBalances goal = None \<longleftrightarrow>
      getDaysRemaining getTime today goal = None \<or>
      (\<exists>days. getDaysRemaining getTime today goal = Some days \<and> days \<le> Fin 0)) \<and>
   (\<forall>days. getDaysRemaining getTime today goal = Some days \<and> \<not> days \<le> Fin 0 \<longrightarrow>
      getMonthlyNeeded getTime today goalBalances goal
        = Some (getRemainingAmount goalBalances goal / (days / Fin 30)))"
proof -
  have days: "getDaysRemaining getTime today goal = None \<longleftrightarrow>
      target_date goal = None \<or> target_date goal = Some []"
    by (simp add: getDaysRemaining_def Let_def split: option.splits)
  have null: "getMonthlyNeeded getTime today goalBalances goal = None \<longleftrightarrow>
      getDaysRemaining getTime today goal = None \<or>
      (\<exists>days. getDaysRemaining getTime today goal = Some days \<and> days \<le> Fin 0)"
    by (cases "getDaysRemaining getTime today goal") (simp_all add: getMonthlyNeeded_def Let_def)
  have quotient: "getMonthlyNeeded getTime today goalBalances goal
        = Some (getRemainingAmount goalBalances goal / (days / Fin 30))"
    if "getDaysRemaining getTime today goal = Some days" and "\<not> days \<le> Fin 0" for days
    using that by (simp add: getMonthlyNeeded_def Let_def)
  from days null quotient show ?thesis by blast
qed

theorem monthly_needed_null_or_quotient_witness:
  "getDaysRemaining sampleGetTime march2 scenarioC = Some (Fin 30) \<and>
   getMonthlyNeeded sampleGetTime march2 (calculateBalances [scenarioC] snapshot) scenarioC
     = Some (Fin 600) \<and>
   getMonthlyNeeded sampleGetTime march2 (calculateBalances [scenarioD] snapshot) scenarioD = None"
proof -
  have c: "getDaysRemaining sampleGetTime march2 scenarioC = Some (Fin 30)"
    by (simp add: round64_eval getDaysRemaining_def Let_def scenarioC_def manualGoal_def sampleGetTime_def
        march2_def Fin_minus)
  have d: "getDaysRemaining sampleGetTime march2 scenarioD = Some (Fin (- 60))"
    by (simp add: round64_eval getDaysRemaining_def Let_def scenarioD_def scenarioC_def manualGoal_def
        sampleGetTime_def march2_def Fin_minus)
  have r: "getRemainingAmount (calculateBalances [scenarioC] snapshot) scenarioC = Fin 600"
    by (simp add: round64_eval getRemainingAmount_def getCurrentAmount_def orElse_def truthy_def
        calculateBalances_def goalBalance_def scenarioC_def manualGoal_def snapshot_def
        checkingAccount_def savingsAccount_def rule_of_def Math_max_def Fin_minus)
  have C: "getMonthlyNeeded sampleGetTime march2 (calculateBalances [scenarioC] snapshot) scenarioC
      = Some (Fin 600)"
    using monthly_needed_null_or_quotient [of sampleGetTime march2 scenarioC
        "calculateBalances [scenarioC] snapshot"] c r
    by (simp add: round64_eval)
  have D: "getMonthlyNeeded sampleGetTime march2 (calculateBalances [scenarioD] snapshot) scenarioD
      = None"
    using monthly_needed_null_or_quotient [of sampleGetTime march2 scenarioD
        "calculateBalances [scenarioD] snapshot"] d
    by simp
  from c C D show ?thesis by simp
qed

text \<open>
  C3. For a goal with a target date and \<open>totalDays\<close>, the days from creation to the
  target date, strictly positive: the expected progress is
  \<open>(totalDays - daysRemaining) / totalDays * 100\<close>, and the goal is on track exactly when
  its progress is at least the expected progress minus 5, all in the arithmetic of
  JavaScript numbers. With valid dates the days remaining and the expected progress are
  finite numbers. In scenario C (created 60 days ago, due in 30 days, progress 40) the
  expected progress is \<open>66.66666666666666\<close> and the goal is not on track.
\<close>

theorem on_track_is_progress_within_tolerance:
  assumes "target_date goal = Some d" and "d \<noteq> []"
    and "Fin 0 < totalDays getTime goal d"
  shows "totalDays getTime goal d = (getTime d - getTime (created_at goal)) / Fin 86400000 \<and>
         getDaysRemaining getTime today goal
           = Some (Math_ceil ((getTime d - today) / Fin 86400000)) \<and>
         (\<forall>daysRemaining.
            expectedProgress getTime goal d daysRemaining
              = (totalDays getTime goal d - daysRemaining) / totalDays getTime goal d * Fin 100) \<and>
         (\<forall>daysRemaining. getDaysRemaining getTime today goal = Some daysRemaining \<longrightarrow>
            isOnTrack getTime today goalBalances goal
              = Some (getProgress goalBalances goal
                        \<ge> expectedProgress getTime goal d daysRemaining - Fin 5)) \<and>
         (\<forall>t c n. getTime d = Fin t \<and> getTime (created_at goal) = Fin c \<and> today = Fin n \<longrightarrow>
            (\<exists>days e. getDaysRemaining getTime today goal = Some (Fin days) \<and>
               expectedProgress getTime goal d (Fin days) = Fin e))"
proof -
  have total: "totalDays getTime goal d
      = (getTime d - getTime (created_at goal)) / Fin 86400000"
    by (simp add: totalDays_def)
  have days: "getDaysRemaining getTime today goal
      = Some (Math_ceil ((getTime d - today) / Fin 86400000))"
    using assms(1,2) by (simp add: getDaysRemaining_def Let_def)
  have expected: "expectedProgress getTime goal d daysRemaining
      = (totalDays getTime goal d - daysRemaining) / totalDays getTime goal d * Fin 100"
    for daysRemaining
    by (simp add: expectedProgress_def Let_def)
  have track: "isOnTrack getTime today goalBalances goal
      = Some (getProgress goalBalances goal
                \<ge> expectedProgress getTime goal d daysRemaining - Fin 5)"
    if "getDaysRemaining getTime today goal = Some daysRemaining" for daysRemaining
    using assms(1,2) that by (simp add: isOnTrack_def Let_def)
  have finite: "\<exists>days e. getDaysRemaining getTime today goal = Some (Fin days) \<and>
      expectedProgress getTime goal d (Fin days) = Fin e"
    if "getTime d = Fin t" and "getTime (created_at goal) = Fin c" and "today = Fin n"
    for t c n
  proof -
    obtain x where x: "Fin t - Fin c = Fin x"
      using Fin_minus_Fin by blast
    obtain y where y: "Fin t - Fin n = Fin y"
      using Fin_minus_Fin by blast
    from that x have T: "totalDays getTime goal d = Fin (round64 (x / 86400000))"
      by (simp add: totalDays_def)
    with assms(3) have pos: "round64 (x / 86400000) \<noteq> 0"
      by simp
    from that y days have D: "getDaysRemaining getTime today goal
        = Some (Fin (of_int \<lceil>round64 (y / 86400000)\<rceil>))"
      by simp
    obtain z where z: "Fin (round64 (x / 86400000)) - Fin (of_int \<lceil>round64 (y / 86400000)\<rceil>) = Fin z"
      using Fin_minus_Fin by blast
    from T pos z have "\<exists>e. expectedProgress getTime goal d (Fin (of_int \<lceil>round64 (y / 86400000)\<rceil>)) = Fin e"
      by (simp add: expectedProgress_def Let_def)
    with D show ?thesis by blast
  qed
  from total days expected track finite show ?thesis by blast
qed

theorem on_track_is_progress_within_tolerance_witness:
  "totalDays sampleGetTime scenarioC ''2025-04-01'' = Fin 90 \<and>
   getDaysRemaining sampleGetTime march2 scenarioC = Some (Fin 30) \<and>
   getProgress (calculateBalances [scenarioC] snapshot) scenarioC = Fin 40 \<and>
   expectedProgress sampleGetTime scenarioC ''2025-04-01'' (Fin 30)
     = Fin (2345624805922133 / 35184372088832) \<and>
   isOnTrack sampleGetTime march2 (calculateBalances [scenarioC] snapshot) scenarioC = Some False"
proof -
  have t: "totalDays sampleGetTime scenarioC ''2025-04-01'' = Fin 90"
    by (simp add: round64_eval totalDays_def scenarioC_def manualGoal_def sampleGetTime_def
        Fin_minus)
  have p: "getProgress (calculateBalances [scenarioC] snapshot) scenarioC = Fin 40"
    by (simp add: round64_eval getProgress_def orElse_def truthy_def calculateBalances_def
        goalBalance_def scenarioC_def manualGoal_def snapshot_def checkingAccount_def
        savingsAccount_def rule_of_def Math_min_def Math_max_def Fin_minus)
  have h: "target_date scenarioC = Some ''2025-04-01''" "''2025-04-01'' \<noteq> []"
    by (simp_all add: scenarioC_def manualGoal_def)
  have pos: "Fin 0 < totalDays sampleGetTime scenarioC ''2025-04-01''"
    by (simp add: t)
  have d: "getDaysRemaining sampleGetTime march2 scenarioC = Some (Fin 30)"
    using on_track_is_progress_within_tolerance [OF h pos, of march2]
    by (simp add: round64_eval sampleGetTime_def march2_def Fin_minus)
  have e: "expectedProgress sampleGetTime scenarioC ''2025-04-01'' (Fin 30)
      = Fin (2345624805922133 / 35184372088832)"
    by (simp add: round64_eval expectedProgress_def t Fin_minus)
  have "isOnTrack sampleGetTime march2 (calculateBalances [scenarioC] snapshot) scenarioC
      = Some False"
    using on_track_is_progress_within_tolerance
      [OF h pos, of march2 "calculateBalances [scenarioC] snapshot"] d e p
    by (simp add: round64_eval Fin_minus)
  with t d p e show ?thesis by simp
qed

text \<open>
  The rounding of binary64 decides at the edge of the band. A goal with a window of 20 days
  and 9 days left is expected at \<open>(11 / 20) * 100\<close>, which is \<open>55.00000000000001\<close> and not
  55 in binary64; with progress exactly 50 the goal is not on track.
\<close>

lemma on_track_at_band_edge:
  "getProgress (calculateBalances [bandEdgeGoal] snapshot) bandEdgeGoal = Fin 50 \<and>
   expectedProgress sampleGetTime bandEdgeGoal ''2025-01-21'' (Fin 9) - Fin 5
     = Fin (7036874417766401 / 140737488355328) \<and>
   isOnTrack sampleGetTime january12 (calculateBalances [bandEdgeGoal] snapshot) bandEdgeGoal
     = Some False"
proof -
  have p: "getProgress (calculateBalances [bandEdgeGoal] snapshot) bandEdgeGoal = Fin 50"
    by (simp add: round64_eval getProgress_def orElse_def truthy_def calculateBalances_def
        goalBalance_def bandEdgeGoal_def scenarioC_def manualGoal_def snapshot_def
        checkingAccount_def savingsAccount_def rule_of_def Math_min_def Math_max_def Fin_minus)
  have e: "expectedProgress sampleGetTime bandEdgeGoal ''2025-01-21'' (Fin 9) - Fin 5
      = Fin (7036874417766401 / 140737488355328)"
    by (simp add: round64_eval expectedProgress_def totalDays_def bandEdgeGoal_def
        scenarioC_def manualGoal_def sampleGetTime_def Fin_minus)
  have d: "getDaysRemaining sampleGetTime january12 bandEdgeGoal = Some (Fin 9)"
    by (simp add: round64_eval getDaysRemaining_def bandEdgeGoal_def scenarioC_def
        manualGoal_def sampleGetTime_def january12_def Fin_minus)
  have "isOnTrack sampleGetTime january12 (calculateBalances [bandEdgeGoal] snapshot) bandEdgeGoal
      = Some False"
    using p e d by (simp add: isOnTrack_def Let_def bandEdgeGoal_def scenarioC_def manualGoal_def)
  with p e show ?thesis by simp
qed

text \<open>
  C4. When the target date and the creation date are the same instant, \<^verbatim>\<open>totalDays\<close> is 0,
  and \<^verbatim>\<open>isOnTrack\<close> divides by it all the same: \<^verbatim>\<open>expectedProgress\<close> is \<open>NaN\<close> on the
  day itself (\<open>0 / 0\<close>), \<open>+Infinity\<close> afterwards and \<open>-Infinity\<close> before, and the result is
  the comparison of the progress with that value. A goal that is fully funded (progress
  100) is reported as not on track on its day and ever after, and a goal at progress 40 is
  reported as on track before it. \<^verbatim>\<open>getProgress\<close> and \<^verbatim>\<open>getMonthlyNeeded\<close> guard their
  divisors (\<^verbatim>\<open>needed <= 0\<close>, \<^verbatim>\<open>days <= 0\<close>); \<^verbatim>\<open>isOnTrack\<close> has no such guard.
\<close>

theorem on_track_empty_window_divides_by_zero:
  "totalDays sampleGetTime fundedGoal ''2025-01-01'' = Fin 0 \<and>
   getProgress (calculateBalances [fundedGoal] snapshot) fundedGoal = Fin 100 \<and>
   getDaysRemaining sampleGetTime january1 fundedGoal = Some (Fin 0) \<and>
   expectedProgress sampleGetTime fundedGoal ''2025-01-01'' (Fin 0) = NaN \<and>
   isOnTrack sampleGetTime january1 (calculateBalances [fundedGoal] snapshot) fundedGoal
     = Some False \<and>
   getDaysRemaining sampleGetTime march2 fundedGoal = Some (Fin (- 60)) \<and>
   expectedProgress sampleGetTime fundedGoal ''2025-01-01'' (Fin (- 60)) = PInf \<and>
   isOnTrack sampleGetTime march2 (calculateBalances [fundedGoal] snapshot) fundedGoal
     = Some False \<and>
   getProgress (calculateBalances [scenarioD] snapshot) scenarioD = Fin 40 \<and>
   getDaysRemaining sampleGetTime december31 scenarioD = Some (Fin 1) \<and>
   expectedProgress sampleGetTime scenarioD ''2025-01-01'' (Fin 1) = NInf \<and>
   isOnTrack sampleGetTime december31 (calculateBalances [scenarioD] snapshot) scenarioD
     = Some True"
proof -
  have t: "totalDays sampleGetTime fundedGoal ''2025-01-01'' = Fin 0"
    "totalDays sampleGetTime scenarioD ''2025-01-01'' = Fin 0"
    by (simp_all add: round64_eval totalDays_def fundedGoal_def scenarioD_def scenarioC_def
        manualGoal_def sampleGetTime_def Fin_minus)
  have p: "getProgress (calculateBalances [fundedGoal] snapshot) fundedGoal = Fin 100"
    "getProgress (calculateBalances [scenarioD] snapshot) scenarioD = Fin 40"
    by (simp_all add: round64_eval getProgress_def orElse_def truthy_def calculateBalances_def
        goalBalance_def fundedGoal_def scenarioD_def scenarioC_def manualGoal_def snapshot_def
        checkingAccount_def savingsAccount_def rule_of_def Math_min_def Math_max_def Fin_minus)
  have d: "getDaysRemaining sampleGetTime january1 fundedGoal = Some (Fin 0)"
    "getDaysRemaining sampleGetTime march2 fundedGoal = Some (Fin (- 60))"
    "getDaysRemaining sampleGetTime december31 scenarioD = Some (Fin 1)"
    by (simp_all add: round64_eval getDaysRemaining_def fundedGoal_def scenarioD_def
        scenarioC_def manualGoal_def sampleGetTime_def january1_def march2_def december31_def
        Fin_minus)
  have e: "expectedProgress sampleGetTime fundedGoal ''2025-01-01'' (Fin 0) = NaN"
    "expectedProgress sampleGetTime fundedGoal ''2025-01-01'' (Fin (- 60)) = PInf"
    "expectedProgress sampleGetTime scenarioD ''2025-01-01'' (Fin 1) = NInf"
    by (simp_all add: expectedProgress_def Let_def t Fin_minus)
  have h: "target_date fundedGoal = Some ''2025-01-01''"
    "target_date scenarioD = Some ''2025-01-01''"
    by (simp_all add: fundedGoal_def scenarioD_def scenarioC_def manualGoal_def)
  have r: "isOnTrack sampleGetTime january1 (calculateBalances [fundedGoal] snapshot) fundedGoal
      = Some False"
    "isOnTrack sampleGetTime march2 (calculateBalances [fundedGoal] snapshot) fundedGoal
      = Some False"
    "isOnTrack sampleGetTime december31 (calculateBalances [scenarioD] snapshot) scenarioD
      = Some True"
    using h p d e by (simp_all add: isOnTrack_def Let_def minus_number_def)
  from t p d e r show ?thesis by simp
qed

section \<open>The totals over the active goals\<close>






end
